theory Spec2Isabelle
  imports Main "HOL-Library.Word"
begin

unbundle bit_operations_syntax

section \<open>hbcdump: the command interpreter of tools/hbcdump/hbcdump.cpp\<close>

text \<open>
  The theory embeds the command dispatcher \<open>executeCommand\<close>, the help printer
  \<open>printHelp\<close>, the option guard \<open>DisassemblerOptionsHolder\<close> and the session loop
  \<open>enterCommandLoop\<close>. The disassembler and the profile analyzer are external engines:
  every call the dispatcher makes to them is recorded in a trace, and the text an engine
  call writes is a parameter of the environment.
\<close>

subsection \<open>Streams, engine calls, environment and state\<close>

text \<open>
  \<open>DisassemblyOptions\<close> is an enum class used as a bit mask; its underlying type is a
  32-bit integer and \<open>|\<close> is bitwise or.
\<close>

type_synonym mask = "32 word"

text \<open>
  The program writes to three streams: \<open>llvh::outs()\<close>, \<open>llvh::errs()\<close> and the file
  opened for \<open>-out\<close>. The parameter \<open>os\<close> of \<open>executeCommand\<close> is a reference to one of
  them, so a stream is an address into a store of stream contents.
\<close>

datatype stream = Stdout | Stderr | OutFile

text \<open>The rendering operations of the profile analyzer and of the disassembler.\<close>

datatype engine_call =
    DumpUsedFunctionIDs
  | DumpFunctionStats
  | DumpFunctionBasicBlockStat "32 word"
  | DumpInstructionStats
  | Disassemble mask
  | DisassembleFunction mask "32 word"
  | DumpString "32 word"
  | DumpFileName "32 word"
  | DumpAllFunctionInfo
  | DumpFunctionInfo "32 word"
  | DumpIO
  | DumpSummary
  | DumpBasicBlockStats
  | DumpEpilogue

text \<open>
  What this file takes from its collaborators: the values of the option constants
  declared in BytecodeDisassembler.h (\<open>DisassemblyOptions::None\<close> is the zero mask), the
  function count of the loaded module, the resolution of a virtual offset to a function
  id, the text each rendering operation writes, and the order in which the
  \<open>std::unordered_map\<close> of help texts is iterated.
\<close>

record env =
  opt_IncludeSource :: mask
  opt_IncludeVirtualOffsets :: mask
  opt_IncludeFunctionIds :: mask
  opt_Pretty :: mask
  opt_Objdump :: mask
  getFunctionCount :: "32 word"
  getFunctionFromVirtualOffset :: "32 word \<Rightarrow> 32 word option"
  render :: "engine_call \<Rightarrow> string"
  helpOrder :: "string list"

text \<open>
  The mutable state of a session: the option mask held by the disassembler object, the
  contents of the streams, and the trace of rendering operations invoked so far.
\<close>

record state =
  options :: mask
  streams :: "stream \<Rightarrow> string"
  calls :: "engine_call list"

text \<open>\<open>st << txt\<close>.\<close>

definition emit :: "stream \<Rightarrow> string \<Rightarrow> state \<Rightarrow> state" where
  "emit st txt s = s\<lparr>streams := (streams s)(st := streams s st @ txt)\<rparr>"

text \<open>
  A rendering operation writes its text to the session's stream (the analyzer is
  constructed on the same \<open>os\<close> that \<open>executeCommand\<close> receives) and is appended to the
  trace. The disassembler renders under the mask it holds at the time of the call, so the
  mask is part of the call.
\<close>

definition engine :: "env \<Rightarrow> stream \<Rightarrow> engine_call \<Rightarrow> state \<Rightarrow> state" where
  "engine e os c s =
     s\<lparr>streams := (streams s)(os := streams s os @ render e c), calls := calls s @ [c]\<rparr>"

subsection \<open>Library routines used by the dispatcher\<close>

text \<open>\<open>StringRef::find(char)\<close>: the index of the first occurrence, \<open>None\<close> for \<open>npos\<close>.\<close>

fun find_char :: "char \<Rightarrow> string \<Rightarrow> nat option" where
  "find_char c [] = None"
| "find_char c (x # xs) = (if x = c then Some 0 else map_option Suc (find_char c xs))"

text \<open>
  Modelled from the spec: \<open>llvh::StringRef::split(A, Separator, MaxSplit, KeepEmpty)\<close> is
  part of the vendored llvh library, not of hbcdump.cpp, which calls it with the
  defaults \<open>MaxSplit = -1\<close> and \<open>KeepEmpty = true\<close>. The spec has it "split strictly on
  the space character" and not "collapse consecutive delimiters": each separator ends a
  token, empty tokens are kept, and the tail after the last separator is pushed as the
  final token. The countdown from \<open>MaxSplit = -1\<close> never reaches zero on a line that
  fits in memory, so the loop runs until no separator is left.
\<close>

function split :: "string \<Rightarrow> char \<Rightarrow> string list" where
  "split S Separator =
     (case find_char Separator S of
        None \<Rightarrow> [S]
      | Some Idx \<Rightarrow> take Idx S # split (drop (Idx + 1) S) Separator)"
  by pat_completeness auto
termination
proof (relation "measure (\<lambda>(S, Separator). length S)")
  show "wf (measure (\<lambda>(S, Separator). length S))"
    by simp
next
  fix S :: string and Separator Idx
  assume found: "find_char Separator S = Some Idx"
  have "find_char c T = Some i \<Longrightarrow> i < length T" for c T i
    by (induction T arbitrary: i) (auto split: if_splits)
  from this [OF found] show "((drop (Idx + 1) S, Separator), (S, Separator))
      \<in> measure (\<lambda>(S, Separator). length S)"
    by simp
qed

declare split.simps [simp del]

text \<open>
  \<open>findAndRemoveOne\<close>: \<open>std::find\<close> returns the first position holding the needle and
  \<open>erase\<close> removes that one element. The container is mutated in place; the model returns
  the flag together with the new container.
\<close>

definition findAndRemoveOne :: "'a list \<Rightarrow> 'a \<Rightarrow> bool \<times> 'a list" where
  "findAndRemoveOne haystack needle =
     (if needle \<in> set haystack then (True, remove1 needle haystack) else (False, haystack))"

text \<open>
  Modelled from the spec: \<open>llvh::StringRef::getAsInteger(0, uint32_t &)\<close> is part of the
  vendored llvh library. The spec has a numeric argument "parse as a non-negative integer
  in the token's given radix". The radix is sensed from the prefix (\<open>0x\<close>/\<open>0X\<close> sixteen,
  \<open>0b\<close>/\<open>0B\<close> two, \<open>0o\<close> or a leading zero before a digit eight, ten otherwise), the digits
  are accumulated in a 64-bit unsigned integer with an overflow check, the whole token
  must be consumed, and the value must fit the 32-bit result. The C++ routine returns
  true on failure; the model returns \<open>None\<close>.
\<close>

definition startswith :: "string \<Rightarrow> string \<Rightarrow> bool" where
  "startswith S Prefix = (take (length Prefix) S = Prefix)"

definition isdigit :: "char \<Rightarrow> bool" where
  "isdigit c = (48 \<le> (of_char c :: nat) \<and> (of_char c :: nat) \<le> 57)"

definition GetAutoSenseRadix :: "string \<Rightarrow> nat \<times> string" where
  "GetAutoSenseRadix Str =
     (if Str = [] then (10, Str)
      else if startswith Str ''0x'' \<or> startswith Str ''0X'' then (16, drop 2 Str)
      else if startswith Str ''0b'' \<or> startswith Str ''0B'' then (2, drop 2 Str)
      else if startswith Str ''0o'' then (8, drop 2 Str)
      else if hd Str = CHR ''0'' \<and> length Str > 1 \<and> isdigit (Str ! 1) then (8, drop 1 Str)
      else (10, Str))"

definition CharVal :: "char \<Rightarrow> nat option" where
  "CharVal c =
     (let n = (of_char c :: nat) in
      if 48 \<le> n \<and> n \<le> 57 then Some (n - 48)
      else if 97 \<le> n \<and> n \<le> 122 then Some (n - 97 + 10)
      else if 65 \<le> n \<and> n \<le> 90 then Some (n - 65 + 10)
      else None)"

text \<open>
  The digit loop of \<open>consumeUnsignedInteger\<close>: \<open>None\<close> is the overflow exit, otherwise the
  accumulated value and the unconsumed rest.
\<close>

fun consumeDigits :: "nat \<Rightarrow> string \<Rightarrow> 64 word \<Rightarrow> (64 word \<times> string) option" where
  "consumeDigits Radix [] Result = Some (Result, [])"
| "consumeDigits Radix (c # Str2) PrevResult =
     (case CharVal c of
        None \<Rightarrow> Some (PrevResult, c # Str2)
      | Some v \<Rightarrow>
          if v \<ge> Radix then Some (PrevResult, c # Str2)
          else
            (let Result = PrevResult * of_nat Radix + of_nat v in
             if Result div of_nat Radix < PrevResult then None
             else consumeDigits Radix Str2 Result))"

definition consumeUnsignedInteger :: "string \<Rightarrow> (64 word \<times> string) option" where
  "consumeUnsignedInteger Str0 =
     (case GetAutoSenseRadix Str0 of
        (Radix, Str) \<Rightarrow>
          if Str = [] then None
          else
            (case consumeDigits Radix Str 0 of
               None \<Rightarrow> None
             | Some (Result, Str2) \<Rightarrow>
                 if length Str = length Str2 then None else Some (Result, Str2)))"

definition getAsUnsignedInteger :: "string \<Rightarrow> 64 word option" where
  "getAsUnsignedInteger Str =
     (case consumeUnsignedInteger Str of
        None \<Rightarrow> None
      | Some (Result, Rest) \<Rightarrow> if Rest \<noteq> [] then None else Some Result)"

definition getAsInteger :: "string \<Rightarrow> 32 word option" where
  "getAsInteger Str =
     (case getAsUnsignedInteger Str of
        None \<Rightarrow> None
      | Some ULLVal \<Rightarrow>
          if (ucast (ucast ULLVal :: 32 word) :: 64 word) \<noteq> ULLVal then None
          else Some (ucast ULLVal))"

text \<open>\<open>os << n\<close> for an unsigned integer: its decimal digits.\<close>

fun decimal :: "nat \<Rightarrow> string" where
  "decimal n =
     (if n < 10 then [char_of (48 + n)]
      else decimal (n div 10) @ [char_of (48 + n mod 10)])"

declare decimal.simps [simp del]

subsection \<open>The help registry\<close>

definition commandToHelpText :: "(string \<times> string) list" where
  "commandToHelpText =
   [(''function'',
     '''function': Compute the runtime instruction frequency for each function and display in desceding order.Each function name is displayed together with its source code line number.\<newline>\<newline>'function <FUNC_ID>': Dump basic block stats for function with id <FUNC_ID>.\<newline>\<newline>'function -used': List all invoked function IDs, one per line.\<newline>\<newline>USAGE: function [<FUNC_ID> | -used]\<newline>       fun [<FUNC_ID> | -used]\<newline>''),
    (''instruction'',
     ''Computes the runtime instruction frequency for each instructionand displays it in descending order.\<newline>\<newline>USAGE: instruction\<newline>       inst\<newline>''),
    (''disassemble'',
     '''disassemble': Display bytecode disassembled output of whole binary.\<newline>'disassemble <FUNC_ID>': Display bytecode disassembled output of function with id <FUNC_ID>.\<newline>Add the '-offsets' flag to show virtual offsets for all instructions.\<newline>\<newline>USAGE: disassemble <FUNC_ID> [-offsets]\<newline>       dis <FUNC_ID> [-offsets]\<newline>''),
    (''summary'',
     ''Display overall summary information.\<newline>\<newline>USAGE: summary\<newline>''),
    (''io'',
     ''Visualize function page I/O access working setin basic block profile trace.\<newline>\<newline>USAGE: io\<newline>''),
    (''block'',
     ''Display top hot basic blocks in sorted order.\<newline>\<newline>USAGE: block\<newline>''),
    (''at-virtual'',
     ''Display information about the function at a given virtual offset.\<newline>\<newline>USAGE: at-virtual <OFFSET>\<newline>''),
    (''help'',
     ''Help instructions for hbcdump tool commands.\<newline>\<newline>USAGE: help <COMMAND>\<newline>       h <COMMAND>\<newline>''),
    (''function-info'',
     ''Display info about a specific function, or all functions\<newline>\<newline>USAGE: function-info [<FUNC_ID>]\<newline>NOTE: Virtual offset is the offset from the beginning of the segment\<newline>''),
    (''string'',
     ''Display string for ID\<newline>\<newline>USAGE: string <STRING_ID>\<newline>''),
    (''filename'',
     ''Display file name for ID\<newline>\<newline>USAGE: filename <FILENAME_ID>\<newline>''),
    (''epilogue'',
     ''Dump the epilogue.\<newline>\<newline>USAGE: epilogue\<newline>'')]"

definition topLevelHelpText :: string where
  "topLevelHelpText =
     ''These commands are defined internally. Type `help' to see this list.\<newline>Type `help name' to find out more about the function `name'.\<newline>\<newline>''"

text \<open>
  \<open>printHelp\<close> writes to \<open>llvh::outs()\<close>, whatever stream the session writes to. Its
  argument is an optional command name; the listing of all commands follows the
  iteration order of the unordered map, which the environment supplies.
\<close>

definition printHelp :: "env \<Rightarrow> string option \<Rightarrow> state \<Rightarrow> state" where
  "printHelp e command s =
     (if command \<noteq> None \<and> the command \<noteq> [] then
        (case map_of commandToHelpText (the command) of
           None \<Rightarrow> emit Stdout (''Invalid command: '' @ the command @ ''\<newline>'') s
         | Some txt \<Rightarrow> emit Stdout txt s)
      else
        foldl (\<lambda>s' name. emit Stdout (name @ ''\<newline>'') s')
          (emit Stdout topLevelHelpText s) (helpOrder e))"

subsection \<open>The dispatcher\<close>

text \<open>
  How a command leaves the conditional chain of \<open>executeCommand\<close>: by a \<open>return\<close> inside
  its branch, or by reaching the end of the chain, where the trailing newline is written.
\<close>

datatype exit = Return bool | FallThrough

text \<open>\<open>function\<close> / \<open>fun\<close>.\<close>

definition cmdFunction :: "env \<Rightarrow> stream \<Rightarrow> string \<Rightarrow> string list \<Rightarrow> state \<Rightarrow> exit \<times> state" where
  "cmdFunction e os command commandTokens s =
     (case findAndRemoveOne commandTokens ''-used'' of
        (True, toks) \<Rightarrow> (FallThrough, engine e os DumpUsedFunctionIDs s)
      | (False, toks) \<Rightarrow>
          if length toks = 1 then (FallThrough, engine e os DumpFunctionStats s)
          else if length toks = 2 then
            (case getAsInteger (toks ! 1) of
               None \<Rightarrow> (Return False, emit os ''Error: cannot parse func_id as integer.\<newline>'' s)
             | Some funcId \<Rightarrow> (FallThrough, engine e os (DumpFunctionBasicBlockStat funcId) s))
          else (Return False, printHelp e (Some command) s))"

text \<open>\<open>instruction\<close> / \<open>inst\<close>.\<close>

definition cmdInstruction :: "env \<Rightarrow> stream \<Rightarrow> string \<Rightarrow> string list \<Rightarrow> state \<Rightarrow> exit \<times> state" where
  "cmdInstruction e os command commandTokens s =
     (if length commandTokens = 1 then (FallThrough, engine e os DumpInstructionStats s)
      else (Return False, printHelp e (Some command) s))"

text \<open>
  \<open>disassemble\<close> / \<open>dis\<close>. The \<open>DisassemblerOptionsHolder\<close> saves the mask and installs
  the new one when it is constructed, and its destructor puts the saved mask back when
  the branch is left, by any of its returns or at its closing brace.
\<close>

definition cmdDisassemble :: "env \<Rightarrow> stream \<Rightarrow> string \<Rightarrow> string list \<Rightarrow> state \<Rightarrow> exit \<times> state" where
  "cmdDisassemble e os command commandTokens s =
     (case findAndRemoveOne commandTokens ''-offsets'' of
        (found, toks) \<Rightarrow>
          (let localOptions = (if found then opt_IncludeVirtualOffsets e else 0);
               savedOptions = options s;
               s1 = s\<lparr>options := options s OR localOptions\<rparr>;
               r =
                 (if length toks = 1 then (FallThrough, engine e os (Disassemble (options s1)) s1)
                  else if length toks = 2 then
                    (case getAsInteger (toks ! 1) of
                       None \<Rightarrow>
                         (Return False, emit os ''Error: cannot parse func_id as integer.\<newline>'' s1)
                     | Some funcId \<Rightarrow>
                         if funcId \<ge> getFunctionCount e then
                           (Return False,
                            emit os (''Error: no function with id: '' @ decimal (unat funcId)
                                       @ '' exists.\<newline>'') s1)
                         else
                           (FallThrough, engine e os (DisassembleFunction (options s1) funcId) s1))
                  else (Return False, printHelp e (Some command) s1))
           in (fst r, (snd r)\<lparr>options := savedOptions\<rparr>)))"

text \<open>\<open>string\<close> / \<open>str\<close>.\<close>

definition cmdString :: "env \<Rightarrow> stream \<Rightarrow> string \<Rightarrow> string list \<Rightarrow> state \<Rightarrow> exit \<times> state" where
  "cmdString e os command commandTokens s =
     (if length commandTokens \<noteq> 2 then (Return False, printHelp e (Some command) s)
      else
        (case getAsInteger (commandTokens ! 1) of
           None \<Rightarrow> (Return False, emit os ''Error: cannot parse string_id as integer.\<newline>'' s)
         | Some stringId \<Rightarrow> (FallThrough, engine e os (DumpString stringId) s)))"

text \<open>\<open>filename\<close>.\<close>

definition cmdFilename :: "env \<Rightarrow> stream \<Rightarrow> string \<Rightarrow> string list \<Rightarrow> state \<Rightarrow> exit \<times> state" where
  "cmdFilename e os command commandTokens s =
     (if length commandTokens \<noteq> 2 then (Return False, printHelp e (Some command) s)
      else
        (case getAsInteger (commandTokens ! 1) of
           None \<Rightarrow> (Return False, emit os ''Error: cannot parse filename_id as integer.\<newline>'' s)
         | Some filenameId \<Rightarrow> (FallThrough, engine e os (DumpFileName filenameId) s)))"

text \<open>\<open>function-info\<close>. Constructing the JSON emitter on \<open>os\<close> writes nothing.\<close>

definition cmdFunctionInfo :: "env \<Rightarrow> stream \<Rightarrow> string \<Rightarrow> string list \<Rightarrow> state \<Rightarrow> exit \<times> state" where
  "cmdFunctionInfo e os command commandTokens s =
     (if length commandTokens = 1 then (FallThrough, engine e os DumpAllFunctionInfo s)
      else if length commandTokens = 2 then
        (case getAsInteger (commandTokens ! 1) of
           None \<Rightarrow> (Return False, emit os ''Error: cannot parse func_id as integer.\<newline>'' s)
         | Some funcId \<Rightarrow> (FallThrough, engine e os (DumpFunctionInfo funcId) s))
      else (Return False, printHelp e (Some command) s))"

text \<open>\<open>at_virtual\<close> / \<open>at-virtual\<close>.\<close>

definition cmdAtVirtual :: "env \<Rightarrow> stream \<Rightarrow> string \<Rightarrow> string list \<Rightarrow> state \<Rightarrow> exit \<times> state" where
  "cmdAtVirtual e os command commandTokens s =
     (if length commandTokens = 2 then
        (case getAsInteger (commandTokens ! 1) of
           None \<Rightarrow>
             (Return False, emit os ''Error: cannot parse virtualOffset as integer.\<newline>'' s)
         | Some virtualOffset \<Rightarrow>
             (case getFunctionFromVirtualOffset e virtualOffset of
                Some funcId \<Rightarrow> (FallThrough, engine e os (DumpFunctionInfo funcId) s)
              | None \<Rightarrow>
                  (FallThrough,
                   emit os (''Virtual offset '' @ decimal (unat virtualOffset)
                              @ '' is invalid.\<newline>'') s)))
      else (Return False, printHelp e (Some command) s))"

text \<open>\<open>help\<close> / \<open>h\<close>.\<close>

definition cmdHelp :: "env \<Rightarrow> string list \<Rightarrow> state \<Rightarrow> exit \<times> state" where
  "cmdHelp e commandTokens s =
     (if length commandTokens = 2 then (Return False, printHelp e (Some (commandTokens ! 1)) s)
      else (Return False, printHelp e None s))"

text \<open>
  The conditional chain on the first token. It is entered only with a non-empty token
  vector, where \<open>commandTokens[0]\<close> exists; \<open>command\<close> is read before any flag is removed.
\<close>

definition dispatch :: "env \<Rightarrow> stream \<Rightarrow> string list \<Rightarrow> state \<Rightarrow> exit \<times> state" where
  "dispatch e os commandTokens s =
     (let command = hd commandTokens in
      if command = ''function'' \<or> command = ''fun'' then cmdFunction e os command commandTokens s
      else if command = ''instruction'' \<or> command = ''inst'' then
        cmdInstruction e os command commandTokens s
      else if command = ''disassemble'' \<or> command = ''dis'' then
        cmdDisassemble e os command commandTokens s
      else if command = ''string'' \<or> command = ''str'' then cmdString e os command commandTokens s
      else if command = ''filename'' then cmdFilename e os command commandTokens s
      else if command = ''function-info'' then cmdFunctionInfo e os command commandTokens s
      else if command = ''io'' then (FallThrough, engine e os DumpIO s)
      else if command = ''summary'' \<or> command = ''sum'' then (FallThrough, engine e os DumpSummary s)
      else if command = ''block'' then (FallThrough, engine e os DumpBasicBlockStats s)
      else if command = ''at_virtual'' \<or> command = ''at-virtual'' then
        cmdAtVirtual e os command commandTokens s
      else if command = ''epilogue'' \<or> command = ''epi'' then (FallThrough, engine e os DumpEpilogue s)
      else if command = ''help'' \<or> command = ''h'' then cmdHelp e commandTokens s
      else if command = ''quit'' then (Return True, s)
      else (Return False, printHelp e (Some command) s))"

text \<open>
  \<open>executeCommand\<close> after the line has been split: the guard on the empty vector, the
  chain, and the newline written at the end of the chain.
\<close>

definition executeTokens :: "env \<Rightarrow> stream \<Rightarrow> string list \<Rightarrow> state \<Rightarrow> bool \<times> state" where
  "executeTokens e os commandTokens s =
     (if commandTokens = [] then (False, s)
      else
        (case dispatch e os commandTokens s of
           (Return b, s') \<Rightarrow> (b, s')
         | (FallThrough, s') \<Rightarrow> (False, emit os ''\<newline>'' s')))"

definition executeCommand :: "env \<Rightarrow> stream \<Rightarrow> string \<Rightarrow> state \<Rightarrow> bool \<times> state" where
  "executeCommand e os commandWithOptions s =
     executeTokens e os (split commandWithOptions (CHR '' '')) s"

subsection \<open>The session loop\<close>

datatype DisassemblyFormat = Raw | Pretty | Objdump

text \<open>The mask installed at the start of \<open>enterCommandLoop\<close>.\<close>

definition sessionOptions :: "env \<Rightarrow> DisassemblyFormat \<Rightarrow> mask" where
  "sessionOptions e fmt =
     (let opts = opt_IncludeSource e OR opt_IncludeFunctionIds e in
      case fmt of
        Raw \<Rightarrow> opts
      | Pretty \<Rightarrow> opts OR opt_Pretty e
      | Objdump \<Rightarrow> opts OR opt_Objdump e)"

text \<open>
  The \<open>for\<close> loop over the startup commands, with the flag \<open>terminateLoop\<close> as an
  accumulator.
\<close>

fun startupLoop :: "env \<Rightarrow> stream \<Rightarrow> string list \<Rightarrow> bool \<Rightarrow> state \<Rightarrow> bool \<times> state" where
  "startupLoop e os [] terminateLoop s = (terminateLoop, s)"
| "startupLoop e os (command # rest) terminateLoop s =
     (case executeCommand e os command s of
        (r, s') \<Rightarrow> startupLoop e os rest (if r then True else terminateLoop) s')"

text \<open>
  The \<open>while\<close> loop that prompts and reads. Standard input is the list of lines still to
  be read; \<open>getline\<close> fails on the empty list. The result is the final state and the lines
  left unread.
\<close>

fun promptLoop :: "env \<Rightarrow> stream \<Rightarrow> bool \<Rightarrow> string list \<Rightarrow> state \<Rightarrow> state \<times> string list" where
  "promptLoop e os terminateLoop [] s =
     (if terminateLoop then (s, []) else (emit os ''hbcdump> '' s, []))"
| "promptLoop e os terminateLoop (line # rest) s =
     (if terminateLoop then (s, line # rest)
      else
        (case executeCommand e os line (emit os ''hbcdump> '' s) of
           (r, s') \<Rightarrow> promptLoop e os r rest s'))"

definition enterCommandLoop ::
  "env \<Rightarrow> stream \<Rightarrow> DisassemblyFormat \<Rightarrow> string list \<Rightarrow> string list \<Rightarrow> state \<Rightarrow> state \<times> string list" where
  "enterCommandLoop e os fmt startupCommands stdin s =
     (case startupLoop e os startupCommands False (s\<lparr>options := sessionOptions e fmt\<rparr>) of
        (terminateLoop, s') \<Rightarrow> promptLoop e os terminateLoop stdin s')"

subsection \<open>The command-local errors\<close>

text \<open>
  The names the conditional chain of \<open>executeCommand\<close> compares the first token with.
\<close>

definition commandNames :: "string list" where
  "commandNames =
     [''function'', ''fun'', ''instruction'', ''inst'', ''disassemble'', ''dis'',
      ''string'', ''str'', ''filename'', ''function-info'', ''io'', ''summary'', ''sum'',
      ''block'', ''at_virtual'', ''at-virtual'', ''epilogue'', ''epi'', ''help'', ''h'',
      ''quit'']"

text \<open>
  The recoverable errors listed in the specification's error taxonomy, and the condition
  under which the dispatcher meets each of them on a token vector: the first token is in
  no comparison of the chain; the token count left after flag extraction is one the
  command's branch sends to \<open>printHelp\<close>; \<open>getAsInteger\<close> fails on the argument; the
  function id is not below the function count; the virtual offset resolves to no
  function.
\<close>

datatype local_error =
    UnknownCommand
  | WrongArgumentCount
  | NonIntegerArgument
  | FunctionIdOutOfRange
  | InvalidVirtualOffset

definition localError :: "env \<Rightarrow> string list \<Rightarrow> local_error option" where
  "localError e toks =
     (let command = hd toks in
      if toks = [] then None
      else if command \<notin> set commandNames then Some UnknownCommand
      else if command = ''function'' \<or> command = ''fun'' then
        (if ''-used'' \<in> set toks \<or> length toks = 1 then None
         else if length toks = 2 then
           (if getAsInteger (toks ! 1) = None then Some NonIntegerArgument else None)
         else Some WrongArgumentCount)
      else if command = ''instruction'' \<or> command = ''inst'' then
        (if length toks = 1 then None else Some WrongArgumentCount)
      else if command = ''disassemble'' \<or> command = ''dis'' then
        (let rest = snd (findAndRemoveOne toks ''-offsets'') in
         if length rest = 1 then None
         else if length rest = 2 then
           (case getAsInteger (rest ! 1) of
              None \<Rightarrow> Some NonIntegerArgument
            | Some funcId \<Rightarrow>
                if funcId \<ge> getFunctionCount e then Some FunctionIdOutOfRange else None)
         else Some WrongArgumentCount)
      else if command = ''string'' \<or> command = ''str'' \<or> command = ''filename'' then
        (if length toks \<noteq> 2 then Some WrongArgumentCount
         else if getAsInteger (toks ! 1) = None then Some NonIntegerArgument
         else None)
      else if command = ''function-info'' then
        (if length toks = 1 then None
         else if length toks = 2 then
           (if getAsInteger (toks ! 1) = None then Some NonIntegerArgument else None)
         else Some WrongArgumentCount)
      else if command = ''at_virtual'' \<or> command = ''at-virtual'' then
        (if length toks = 2 then
           (case getAsInteger (toks ! 1) of
              None \<Rightarrow> Some NonIntegerArgument
            | Some virtualOffset \<Rightarrow>
                if getFunctionFromVirtualOffset e virtualOffset = None
                then Some InvalidVirtualOffset else None)
         else Some WrongArgumentCount)
      else None)"

text \<open>
  The commands that take a numeric argument, each with the name its diagnostic gives the
  argument.
\<close>

definition numericCommands :: "(string \<times> string) list" where
  "numericCommands =
     [(''function'', ''func_id''), (''fun'', ''func_id''),
      (''disassemble'', ''func_id''), (''dis'', ''func_id''),
      (''string'', ''string_id''), (''str'', ''string_id''),
      (''filename'', ''filename_id''),
      (''function-info'', ''func_id''),
      (''at_virtual'', ''virtualOffset''), (''at-virtual'', ''virtualOffset'')]"

subsection \<open>A sample session\<close>

text \<open>
  A module with three functions whose code starts at virtual offset 100, on a
  disassembler with distinct one-bit option constants. Every rendering operation writes
  a line naming itself.
\<close>

definition sample_render :: "engine_call \<Rightarrow> string" where
  "sample_render c =
     (case c of
        DumpUsedFunctionIDs \<Rightarrow> ''used-ids\<newline>''
      | DumpSummary \<Rightarrow> ''summary\<newline>''
      | Disassemble m \<Rightarrow> ''module\<newline>''
      | DisassembleFunction m f \<Rightarrow> ''body\<newline>''
      | DumpFunctionInfo f \<Rightarrow> ''info\<newline>''
      | _ \<Rightarrow> ''stats\<newline>'')"

definition sample_env :: env where
  "sample_env =
     \<lparr>opt_IncludeSource = 4, opt_IncludeVirtualOffsets = 8, opt_IncludeFunctionIds = 16,
      opt_Pretty = 1, opt_Objdump = 2,
      getFunctionCount = 3,
      getFunctionFromVirtualOffset = (\<lambda>v. if v < 100 then None else Some 0),
      render = sample_render,
      helpOrder = map fst commandToHelpText\<rparr>"

definition sample_state :: state where
  "sample_state = \<lparr>options = 21, streams = (\<lambda>st. []), calls = []\<rparr>"

section \<open>Basic facts\<close>

subsection \<open>Effects on the state\<close>

lemma emit_simps [simp]:
  "options (emit st txt s) = options s"
  "calls (emit st txt s) = calls s"
  "streams (emit st txt s) = (streams s)(st := streams s st @ txt)"
  by (simp_all add: emit_def)

lemma emit_emit [simp]: "emit st b (emit st a s) = emit st (a @ b) s"
  by (simp add: emit_def)

lemma engine_simps [simp]:
  "options (engine e os c s) = options s"
  "calls (engine e os c s) = calls s @ [c]"
  "streams (engine e os c s) = (streams s)(os := streams s os @ render e c)"
  by (simp_all add: engine_def)

lemma emit_options_update [simp]:
  "emit st txt (s\<lparr>options := m\<rparr>) = (emit st txt s)\<lparr>options := m\<rparr>"
  by (simp add: emit_def)

lemma engine_options_update [simp]:
  "engine e os c (s\<lparr>options := m\<rparr>) = (engine e os c s)\<lparr>options := m\<rparr>"
  by (simp add: engine_def)

lemma listing_options [simp]:
  "options (foldl (\<lambda>s' name. emit Stdout (name @ sep) s') s names) = options s"
  by (induction names arbitrary: s) simp_all

lemma listing_calls [simp]:
  "calls (foldl (\<lambda>s' name. emit Stdout (name @ sep) s') s names) = calls s"
  by (induction names arbitrary: s) simp_all

lemma listing_options_update:
  "foldl (\<lambda>s' name. emit Stdout (name @ sep) s') (s\<lparr>options := m\<rparr>) names =
     (foldl (\<lambda>s' name. emit Stdout (name @ sep) s') s names)\<lparr>options := m\<rparr>"
  by (induction names arbitrary: s) simp_all

lemma printHelp_options [simp]: "options (printHelp e c s) = options s"
  by (simp add: printHelp_def split: option.splits)

lemma printHelp_calls [simp]: "calls (printHelp e c s) = calls s"
  by (simp add: printHelp_def split: option.splits)

lemma printHelp_options_update [simp]:
  "printHelp e c (s\<lparr>options := m\<rparr>) = (printHelp e c s)\<lparr>options := m\<rparr>"
  by (simp add: printHelp_def listing_options_update split: option.splits)

lemma restore_options [simp]: "(s::state)\<lparr>options := options s\<rparr> = s"
  by simp

lemma cmdFunction_options: "options (snd (cmdFunction e os c toks s)) = options s"
  by (simp add: cmdFunction_def findAndRemoveOne_def split: option.splits)

lemma cmdDisassemble_options: "options (snd (cmdDisassemble e os c toks s)) = options s"
  by (simp add: cmdDisassemble_def Let_def split: prod.splits)

lemma dispatch_options: "options (snd (dispatch e os toks s)) = options s"
  by (simp add: dispatch_def Let_def cmdFunction_options cmdDisassemble_options
      cmdInstruction_def cmdString_def cmdFilename_def cmdFunctionInfo_def cmdAtVirtual_def
      cmdHelp_def split: option.splits)

lemma executeTokens_options: "options (snd (executeTokens e os toks s)) = options s"
proof (cases "dispatch e os toks s")
  case (Pair x s')
  with dispatch_options [of e os toks s] have "options s' = options s"
    by simp
  with Pair show ?thesis
    by (cases x) (simp_all add: executeTokens_def)
qed

subsection \<open>Splitting and single commands\<close>

lemma split_not_empty: "split S c \<noteq> []"
  by (subst split.simps) (simp split: option.splits)

lemma find_char_None: "find_char c S = None \<longleftrightarrow> c \<notin> set S"
  by (induction S) auto

lemma find_char_append: "c \<notin> set a \<Longrightarrow> find_char c (a @ c # rest) = Some (length a)"
  by (induction a) auto

lemma split_single: "c \<notin> set a \<Longrightarrow> split a c = [a]"
  by (subst split.simps) (simp add: find_char_None [THEN iffD2])

lemma split_cons: "c \<notin> set a \<Longrightarrow> split (a @ c # rest) c = a # split rest c"
  by (subst split.simps) (simp add: find_char_append)

lemma split_empty: "split [] c = [[]]"
  by (simp add: split_single)

lemma split_two:
  "CHR '' '' \<notin> set a \<Longrightarrow> CHR '' '' \<notin> set b \<Longrightarrow> split (a @ '' '' @ b) (CHR '' '') = [a, b]"
  using split_cons [of "CHR '' ''" a b] split_single [of "CHR '' ''" b] by simp

lemma split_three:
  "CHR '' '' \<notin> set a \<Longrightarrow> CHR '' '' \<notin> set b \<Longrightarrow> CHR '' '' \<notin> set c \<Longrightarrow>
     split (a @ '' '' @ b @ '' '' @ c) (CHR '' '') = [a, b, c]"
  using split_cons [of "CHR '' ''" a "b @ '' '' @ c"] split_two [of b c] by simp

lemma executeTokens_quit:
  "toks \<noteq> [] \<Longrightarrow> hd toks = ''quit'' \<Longrightarrow> executeTokens e os toks s = (True, s)"
  by (simp add: executeTokens_def dispatch_def)

lemma cmd_exits:
  "fst (cmdFunction e os c toks s) \<noteq> Return True"
  "fst (cmdInstruction e os c toks s) \<noteq> Return True"
  "fst (cmdDisassemble e os c toks s) \<noteq> Return True"
  "fst (cmdString e os c toks s) \<noteq> Return True"
  "fst (cmdFilename e os c toks s) \<noteq> Return True"
  "fst (cmdFunctionInfo e os c toks s) \<noteq> Return True"
  "fst (cmdAtVirtual e os c toks s) \<noteq> Return True"
  "fst (cmdHelp e toks s) \<noteq> Return True"
  by (simp_all add: cmdFunction_def cmdInstruction_def cmdDisassemble_def cmdString_def
      cmdFilename_def cmdFunctionInfo_def cmdAtVirtual_def cmdHelp_def findAndRemoveOne_def
      Let_def split: option.splits prod.splits)

lemma dispatch_not_quit: "hd toks \<noteq> ''quit'' \<Longrightarrow> fst (dispatch e os toks s) \<noteq> Return True"
  by (simp add: dispatch_def Let_def cmd_exits)

lemma executeTokens_not_quit:
  assumes "hd toks \<noteq> ''quit''"
  shows "fst (executeTokens e os toks s) = False"
proof (cases "dispatch e os toks s")
  case (Pair x s')
  with dispatch_not_quit [OF assms, of e os s] have "x \<noteq> Return True"
    by simp
  with Pair show ?thesis
    by (cases x) (simp_all add: executeTokens_def)
qed

lemma listing_emit:
  "foldl (\<lambda>s' name. emit Stdout (name @ sep) s') (emit Stdout pre s) names =
     emit Stdout (pre @ concat (map (\<lambda>name. name @ sep) names)) s"
  by (induction names arbitrary: pre) simp_all

lemma printHelp_empty_name:
  "printHelp e (Some []) s =
     emit Stdout (topLevelHelpText @ concat (map (\<lambda>name. name @ ''\<newline>'') (helpOrder e))) s"
  by (simp add: printHelp_def listing_emit)

subsection \<open>Commands with one argument\<close>

lemma getAsInteger_offsets_flag: "getAsInteger ''-offsets'' = None"
  by code_simp

lemma state_options_twice [simp]: "(s\<lparr>options := a\<rparr>)\<lparr>options := b\<rparr> = s\<lparr>options := b\<rparr>" for s :: state
  by simp

lemma emit_restore [simp]: "(emit st m s)\<lparr>options := options s\<rparr> = emit st m s"
  by (simp add: emit_def)

lemma engine_restore [simp]: "(engine e os c s)\<lparr>options := options s\<rparr> = engine e os c s"
  by (simp add: engine_def)

lemma printHelp_restore [simp]: "(printHelp e c s)\<lparr>options := options s\<rparr> = printHelp e c s"
  using restore_options [of "printHelp e c s"] by simp

lemma exec_function_arg:
  assumes "cmd = ''function'' \<or> cmd = ''fun''" and "tok \<noteq> ''-used''"
  shows "executeTokens e os [cmd, tok] s =
    (case getAsInteger tok of
       None \<Rightarrow> (False, emit os ''Error: cannot parse func_id as integer.\<newline>'' s)
     | Some funcId \<Rightarrow> (False, emit os ''\<newline>'' (engine e os (DumpFunctionBasicBlockStat funcId) s)))"
  using assms
  by (elim disjE) (simp_all add: executeTokens_def dispatch_def Let_def cmdFunction_def findAndRemoveOne_def
      split: option.splits)

lemma exec_disassemble_arg:
  assumes "cmd = ''disassemble'' \<or> cmd = ''dis''" and "tok \<noteq> ''-offsets''"
  shows "executeTokens e os [cmd, tok] s =
    (case getAsInteger tok of
       None \<Rightarrow> (False, emit os ''Error: cannot parse func_id as integer.\<newline>'' s)
     | Some funcId \<Rightarrow>
         if funcId \<ge> getFunctionCount e then
           (False, emit os (''Error: no function with id: '' @ decimal (unat funcId)
                              @ '' exists.\<newline>'') s)
         else (False, emit os ''\<newline>'' (engine e os (DisassembleFunction (options s) funcId) s)))"
  using assms
  by (elim disjE) (simp_all add: executeTokens_def dispatch_def Let_def cmdDisassemble_def findAndRemoveOne_def
      split: option.splits)

lemma exec_disassemble_offsets_arg:
  assumes "cmd = ''disassemble'' \<or> cmd = ''dis''" and "tok \<noteq> ''-offsets''"
    and "toks = [cmd, ''-offsets'', tok] \<or> toks = [cmd, tok, ''-offsets'']"
  shows "executeTokens e os toks s =
    (case getAsInteger tok of
       None \<Rightarrow> (False, emit os ''Error: cannot parse func_id as integer.\<newline>'' s)
     | Some funcId \<Rightarrow>
         if funcId \<ge> getFunctionCount e then
           (False, emit os (''Error: no function with id: '' @ decimal (unat funcId)
                              @ '' exists.\<newline>'') s)
         else (False, emit os ''\<newline>''
                 (engine e os
                    (DisassembleFunction (options s OR opt_IncludeVirtualOffsets e) funcId) s)))"
  using assms
  by (elim disjE) (simp_all add: executeTokens_def dispatch_def Let_def cmdDisassemble_def findAndRemoveOne_def
      split: option.splits)

lemma exec_string_arg:
  assumes "cmd = ''string'' \<or> cmd = ''str''"
  shows "executeTokens e os [cmd, tok] s =
    (case getAsInteger tok of
       None \<Rightarrow> (False, emit os ''Error: cannot parse string_id as integer.\<newline>'' s)
     | Some stringId \<Rightarrow> (False, emit os ''\<newline>'' (engine e os (DumpString stringId) s)))"
  using assms
  by (elim disjE) (simp_all add: executeTokens_def dispatch_def Let_def cmdString_def split: option.splits)

lemma exec_filename_arg:
  "executeTokens e os [''filename'', tok] s =
    (case getAsInteger tok of
       None \<Rightarrow> (False, emit os ''Error: cannot parse filename_id as integer.\<newline>'' s)
     | Some filenameId \<Rightarrow> (False, emit os ''\<newline>'' (engine e os (DumpFileName filenameId) s)))"
  by (simp add: executeTokens_def dispatch_def Let_def cmdFilename_def split: option.splits)

lemma exec_function_info_arg:
  "executeTokens e os [''function-info'', tok] s =
    (case getAsInteger tok of
       None \<Rightarrow> (False, emit os ''Error: cannot parse func_id as integer.\<newline>'' s)
     | Some funcId \<Rightarrow> (False, emit os ''\<newline>'' (engine e os (DumpFunctionInfo funcId) s)))"
  by (simp add: executeTokens_def dispatch_def Let_def cmdFunctionInfo_def split: option.splits)

lemma exec_at_virtual_arg:
  assumes "cmd = ''at_virtual'' \<or> cmd = ''at-virtual''"
  shows "executeTokens e os [cmd, tok] s =
    (case getAsInteger tok of
       None \<Rightarrow> (False, emit os ''Error: cannot parse virtualOffset as integer.\<newline>'' s)
     | Some virtualOffset \<Rightarrow>
         (case getFunctionFromVirtualOffset e virtualOffset of
            Some funcId \<Rightarrow> (False, emit os ''\<newline>'' (engine e os (DumpFunctionInfo funcId) s))
          | None \<Rightarrow>
              (False, emit os ''\<newline>''
                 (emit os (''Virtual offset '' @ decimal (unat virtualOffset)
                             @ '' is invalid.\<newline>'') s))))"
  using assms
  by (elim disjE) (simp_all add: executeTokens_def dispatch_def Let_def cmdAtVirtual_def split: option.splits)

subsection \<open>The session loop, the function command and the error classes\<close>

lemma executeCommand_flag:
  "fst (executeCommand e os line s) = (hd (split line (CHR '' '')) = ''quit'')"
  by (cases "hd (split line (CHR '' '')) = ''quit''")
    (simp_all add: executeCommand_def executeTokens_quit executeTokens_not_quit split_not_empty)

lemma startupLoop_state:
  "snd (startupLoop e os cmds t s) = foldl (\<lambda>s' c. snd (executeCommand e os c s')) s cmds"
  by (induction cmds arbitrary: t s) (simp_all split: prod.splits)

lemma startupLoop_flag:
  "fst (startupLoop e os cmds t s) = (t \<or> (\<exists>c\<in>set cmds. hd (split c (CHR '' '')) = ''quit''))"
proof (induction cmds arbitrary: t s)
  case Nil
  show ?case by simp
next
  case (Cons c cmds)
  obtain r s' where step: "executeCommand e os c s = (r, s')"
    by (cases "executeCommand e os c s")
  with executeCommand_flag [of e os c s] have "r = (hd (split c (CHR '' '')) = ''quit'')"
    by simp
  with step Cons [of "if r then True else t" s'] show ?case
    by auto
qed

lemma promptLoop_terminated: "promptLoop e os True stdin s = (s, stdin)"
  by (cases stdin) simp_all

lemma exec_function:
  assumes "toks \<noteq> []" and "hd toks = ''function'' \<or> hd toks = ''fun''"
  shows "executeTokens e os toks s =
     (if ''-used'' \<in> set toks then (False, emit os ''\<newline>'' (engine e os DumpUsedFunctionIDs s))
      else if length toks = 1 then (False, emit os ''\<newline>'' (engine e os DumpFunctionStats s))
      else if length toks = 2 then
        (case getAsInteger (toks ! 1) of
           None \<Rightarrow> (False, emit os ''Error: cannot parse func_id as integer.\<newline>'' s)
         | Some funcId \<Rightarrow>
             (False, emit os ''\<newline>'' (engine e os (DumpFunctionBasicBlockStat funcId) s)))
      else (False, printHelp e (Some (hd toks)) s))"
  using assms
  by (elim disjE)
    (simp_all add: executeTokens_def dispatch_def Let_def cmdFunction_def findAndRemoveOne_def
      split: option.splits)

lemma help_text_nonempty: "map_of commandToHelpText c = Some t \<Longrightarrow> t \<noteq> []"
  by (auto simp: commandToHelpText_def split: if_splits)

lemma printHelp_reports: "\<exists>msg. msg \<noteq> [] \<and> printHelp e c s = emit Stdout msg s"
proof (cases "c \<noteq> None \<and> the c \<noteq> []")
  case True
  then show ?thesis
    by (cases "map_of commandToHelpText (the c)")
      (auto simp: printHelp_def dest: help_text_nonempty)
next
  case False
  then have "printHelp e c s =
      emit Stdout (topLevelHelpText @ concat (map (\<lambda>name. name @ ''\<newline>'') (helpOrder e))) s"
    by (auto simp: printHelp_def listing_emit)
  moreover have "topLevelHelpText @ concat (map (\<lambda>name. name @ ''\<newline>'') (helpOrder e)) \<noteq> []"
    by (simp add: topLevelHelpText_def)
  ultimately show ?thesis
    by blast
qed

lemma command_name_cases:
  obtains "hd toks = ''function''" | "hd toks = ''fun''"
  | "hd toks = ''instruction''" | "hd toks = ''inst''"
  | "hd toks = ''disassemble''" | "hd toks = ''dis''"
  | "hd toks = ''string''" | "hd toks = ''str''"
  | "hd toks = ''filename''"
  | "hd toks = ''function-info''"
  | "hd toks = ''io''"
  | "hd toks = ''summary''" | "hd toks = ''sum''"
  | "hd toks = ''block''"
  | "hd toks = ''at_virtual''" | "hd toks = ''at-virtual''"
  | "hd toks = ''epilogue''" | "hd toks = ''epi''"
  | "hd toks = ''help''" | "hd toks = ''h''"
  | "hd toks = ''quit''"
  | "hd toks \<notin> set commandNames"
  unfolding commandNames_def by auto

lemmas command_defs =
  cmdFunction_def cmdInstruction_def cmdDisassemble_def cmdString_def cmdFilename_def
  cmdFunctionInfo_def cmdAtVirtual_def cmdHelp_def findAndRemoveOne_def

lemma localError_not_empty: "localError e toks = Some err \<Longrightarrow> toks \<noteq> []"
  by (auto simp: localError_def)

lemma dispatch_fallthrough:
  assumes "toks \<noteq> []"
  shows "(fst (dispatch e os toks s) = FallThrough) =
     (calls (snd (dispatch e os toks s)) \<noteq> calls s
      \<or> localError e toks = Some InvalidVirtualOffset)"
  by (cases rule: command_name_cases [of toks])
    (use assms in \<open>simp_all add: dispatch_def localError_def commandNames_def Let_def
      command_defs split: option.splits\<close>)

lemma local_error_tokens:
  assumes err: "localError e toks = Some err"
  shows "\<exists>msg. msg \<noteq> [] \<and> executeTokens e os toks s =
      (False, emit (if err = UnknownCommand \<or> err = WrongArgumentCount then Stdout else os) msg s)"
proof -
  have toks: "toks \<noteq> []"
    using err by (rule localError_not_empty)
  have diag: "m \<noteq> [] \<Longrightarrow> \<exists>msg. msg \<noteq> [] \<and> emit os m s = emit os msg s" for m
    by blast
  show ?thesis
    by (cases rule: command_name_cases [of toks])
      (use err toks in \<open>auto simp add: executeTokens_def dispatch_def localError_def
        commandNames_def Let_def command_defs printHelp_reports
        split: if_splits option.splits intro: diag\<close>)
qed

lemma exec_help_quit:
  assumes "toks \<noteq> []" and "hd toks = ''help'' \<or> hd toks = ''h'' \<or> hd toks = ''quit''"
  shows "snd (executeTokens e os toks s) = snd (dispatch e os toks s)"
  using assms
  by (elim disjE) (simp_all add: executeTokens_def dispatch_def Let_def cmdHelp_def)

section \<open>The claims\<close>

text \<open>
  C1. Whatever line is dispatched, the option mask the disassembler holds after
  \<open>executeCommand\<close> returns is the mask it held before, so the next command observes the
  same mask: the override installed by the \<open>disassemble\<close> branch (the mask or-ed with the
  virtual-offset flag when \<open>-offsets\<close> was extracted) is undone on every exit of the
  branch, the parse error, the range error and the usage text included.
\<close>

theorem options_restored: "options (snd (executeCommand e os line s)) = options s"
  by (simp add: executeCommand_def executeTokens_options)

text \<open>
  On the sample session: \<open>dis -offsets 7\<close> fails the range check and leaves the mask at 21;
  \<open>dis -offsets 2\<close> renders under the overridden mask 29.
\<close>

theorem options_restored_witness:
  "options (snd (executeCommand sample_env OutFile ''dis -offsets 7'' sample_state)) = 21
   \<and> calls (snd (executeCommand sample_env OutFile ''dis -offsets 2'' sample_state))
       = [DisassembleFunction 29 2]"
proof -
  have "options sample_state = 21"
    by (simp add: sample_state_def)
  moreover have "calls (snd (executeCommand sample_env OutFile ''dis -offsets 2'' sample_state))
      = [DisassembleFunction 29 2]"
    by code_simp
  ultimately show ?thesis
    using options_restored [of sample_env OutFile "''dis -offsets 7''" sample_state]
    by simp
qed

text \<open>
  C2 says that after a startup command that signals termination no further startup
  command is dispatched. The \<open>for\<close> loop over the startup commands has no exit: with the
  startup list \<open>quit; summary\<close> the first command signals termination and the second is
  dispatched all the same, its rendering operation is invoked and its output written.
\<close>

theorem startup_commands_after_quit_counterexample:
  "fst (executeCommand sample_env Stdout ''quit''
          (sample_state\<lparr>options := sessionOptions sample_env Pretty\<rparr>)) = True
   \<and> calls (fst (enterCommandLoop sample_env Stdout Pretty [''quit'', ''summary''] []
                   sample_state)) = [DumpSummary]
   \<and> streams (fst (enterCommandLoop sample_env Stdout Pretty [''quit'', ''summary''] []
                     sample_state)) Stdout = ''summary\<newline>\<newline>''"
  by code_simp

text \<open>
  C2, as the code has it. Every startup command is dispatched, in order, whether or not
  an earlier one signalled termination. If any of them signalled termination (its first
  token is \<open>quit\<close>), the prompt loop is not entered: no prompt is written and no input
  line is read. Otherwise the prompt loop starts from the state the startup commands
  left.
\<close>

theorem startup_commands_all_run:
  "enterCommandLoop e os fmt cmds stdin s =
     (let s' = foldl (\<lambda>s' c. snd (executeCommand e os c s')) (s\<lparr>options := sessionOptions e fmt\<rparr>) cmds
      in if \<exists>c\<in>set cmds. hd (split c (CHR '' '')) = ''quit'' then (s', stdin)
         else promptLoop e os False stdin s')"
proof -
  let ?s0 = "s\<lparr>options := sessionOptions e fmt\<rparr>"
  obtain t s' where run: "startupLoop e os cmds False ?s0 = (t, s')"
    by (cases "startupLoop e os cmds False ?s0")
  with startupLoop_state [of e os cmds False ?s0] startupLoop_flag [of e os cmds False ?s0]
  have "s' = foldl (\<lambda>s' c. snd (executeCommand e os c s')) ?s0 cmds"
    and "t = (\<exists>c\<in>set cmds. hd (split c (CHR '' '')) = ''quit'')"
    by simp_all
  with run show ?thesis
    by (simp add: enterCommandLoop_def promptLoop_terminated Let_def)
qed

text \<open>
  On the sample session with the startup list \<open>quit; summary\<close> and one line of input
  waiting: both commands run, the input line is left unread.
\<close>

theorem startup_commands_all_run_witness:
  "enterCommandLoop sample_env Stdout Pretty [''quit'', ''summary''] [''io''] sample_state =
     (snd (executeCommand sample_env Stdout ''summary''
        (snd (executeCommand sample_env Stdout ''quit''
           (sample_state\<lparr>options := sessionOptions sample_env Pretty\<rparr>)))), [''io''])"
proof -
  have "hd (split ''quit'' (CHR '' '')) = ''quit''"
    by code_simp
  then show ?thesis
    using startup_commands_all_run [of sample_env Stdout Pretty "[''quit'', ''summary'']"
        "[''io'']" sample_state]
    by simp
qed

text \<open>
  C3 says that dispatching the empty line returns do-not-terminate and writes nothing.
  The guard of \<open>executeCommand\<close> does that on an empty token vector, but the empty line
  splits into one empty token, so the guard is passed, the empty token matches no
  command, and \<open>printHelp\<close> is called with an empty name: the top-level help text and the
  list of commands are written to standard output.
\<close>

theorem empty_line_prints_help:
  "executeTokens e os [] s = (False, s)
   \<and> split [] (CHR '' '') = [[]]
   \<and> executeCommand e os [] s =
       (False, emit Stdout (topLevelHelpText @ concat (map (\<lambda>name. name @ ''\<newline>'') (helpOrder e))) s)"
  by (simp add: split_empty executeCommand_def executeTokens_def dispatch_def printHelp_empty_name)

text \<open>
  C4 says that every command-local error is reported on the session's output stream.
  With the session writing to the output file, an unknown command and a wrong argument
  count leave the file untouched: their report is written by \<open>printHelp\<close>, to standard
  output.
\<close>

theorem local_errors_stream_counterexample:
  "streams (snd (executeCommand sample_env OutFile ''frobnicate'' sample_state)) OutFile = []
   \<and> streams (snd (executeCommand sample_env OutFile ''frobnicate'' sample_state)) Stdout
       = ''Invalid command: frobnicate\<newline>''
   \<and> streams (snd (executeCommand sample_env OutFile ''instruction 1'' sample_state)) OutFile = []
   \<and> streams (snd (executeCommand sample_env OutFile ''instruction 1'' sample_state)) Stdout
       = ''Computes the runtime instruction frequency for each instructionand displays it in descending order.\<newline>\<newline>USAGE: instruction\<newline>       inst\<newline>''"
  by code_simp

text \<open>
  C4, as the code has it. Each command-local error (unknown command, wrong argument
  count, non-integer argument, function id out of range, invalid virtual offset) makes
  \<open>executeCommand\<close> return do-not-terminate after appending one non-empty report to one
  stream and changing nothing else: no rendering operation is invoked and the error
  stream is not written. The report of a non-integer argument, of a function id out of
  range and of an invalid virtual offset goes to the session's output stream \<open>os\<close>; the
  report of an unknown command and of a wrong argument count goes to standard output,
  which is the session's stream only when no output file was opened.
\<close>

theorem local_errors_reported:
  assumes "localError e (split line (CHR '' '')) = Some err"
  shows "\<exists>msg. msg \<noteq> [] \<and> executeCommand e os line s =
      (False, emit (if err = UnknownCommand \<or> err = WrongArgumentCount then Stdout else os) msg s)"
  unfolding executeCommand_def using assms by (rule local_error_tokens)

text \<open>
  On the sample session writing to the output file: an unknown command is reported on
  standard output, a function id out of range on the file.
\<close>

theorem local_errors_reported_witness:
  "(\<exists>msg. msg \<noteq> [] \<and> executeCommand sample_env OutFile ''frobnicate'' sample_state =
      (False, emit Stdout msg sample_state))
   \<and> (\<exists>msg. msg \<noteq> [] \<and> executeCommand sample_env OutFile ''dis 999'' sample_state =
      (False, emit OutFile msg sample_state))"
proof -
  have "localError sample_env (split ''frobnicate'' (CHR '' '')) = Some UnknownCommand"
    and "localError sample_env (split ''dis 999'' (CHR '' '')) = Some FunctionIdOutOfRange"
    by code_simp+
  then show ?thesis
    using local_errors_reported [of sample_env "''frobnicate''" UnknownCommand OutFile sample_state]
      local_errors_reported [of sample_env "''dis 999''" FunctionIdOutOfRange OutFile sample_state]
    by simp
qed

text \<open>
  C5. For each command that takes a numeric argument (\<open>function\<close>, \<open>disassemble\<close>,
  \<open>string\<close>, \<open>filename\<close>, \<open>function-info\<close>, \<open>at-virtual\<close>, and their aliases), given with one
  argument that \<open>getAsInteger\<close> rejects, \<open>executeCommand\<close> appends the diagnostic
  "Error: cannot parse ... as integer." to the session's stream and returns
  do-not-terminate; the state is otherwise unchanged, so no usage text is written and no
  rendering operation is invoked. The argument is the token in the id position: the
  flags \<open>-used\<close> of \<open>function\<close> and \<open>-offsets\<close> of \<open>disassemble\<close> are extracted before the
  argument is read and are not numeric arguments.
\<close>

theorem non_integer_argument:
  assumes "(cmd, label) \<in> set numericCommands"
    and "CHR '' '' \<notin> set tok"
    and "getAsInteger tok = None"
    and "\<not> ((cmd = ''function'' \<or> cmd = ''fun'') \<and> tok = ''-used'')"
    and "\<not> ((cmd = ''disassemble'' \<or> cmd = ''dis'') \<and> tok = ''-offsets'')"
  shows "executeCommand e os (cmd @ '' '' @ tok) s =
    (False, emit os (''Error: cannot parse '' @ label @ '' as integer.\<newline>'') s)"
proof -
  have "CHR '' '' \<notin> set cmd"
    using assms(1) by (auto simp: numericCommands_def)
  then have tokens: "split (cmd @ '' '' @ tok) (CHR '' '') = [cmd, tok]"
    using assms(2) by (rule split_two)
  have "cmd = ''function'' \<and> label = ''func_id'' \<or> cmd = ''fun'' \<and> label = ''func_id''
      \<or> cmd = ''disassemble'' \<and> label = ''func_id'' \<or> cmd = ''dis'' \<and> label = ''func_id''
      \<or> cmd = ''string'' \<and> label = ''string_id'' \<or> cmd = ''str'' \<and> label = ''string_id''
      \<or> cmd = ''filename'' \<and> label = ''filename_id''
      \<or> cmd = ''function-info'' \<and> label = ''func_id''
      \<or> cmd = ''at_virtual'' \<and> label = ''virtualOffset''
      \<or> cmd = ''at-virtual'' \<and> label = ''virtualOffset''"
    using assms(1) by (simp add: numericCommands_def)
  then show ?thesis
    unfolding executeCommand_def tokens
    using assms(3,4,5)
    by (elim disjE conjE)
      (simp_all add: exec_function_arg exec_disassemble_arg exec_string_arg exec_filename_arg
        exec_function_info_arg exec_at_virtual_arg)
qed

text \<open>On the sample session: \<open>string abc\<close> and \<open>dis 0x\<close>.\<close>

theorem non_integer_argument_witness:
  "executeCommand sample_env OutFile ''string abc'' sample_state =
     (False, emit OutFile ''Error: cannot parse string_id as integer.\<newline>'' sample_state)
   \<and> executeCommand sample_env OutFile ''dis 0x'' sample_state =
     (False, emit OutFile ''Error: cannot parse func_id as integer.\<newline>'' sample_state)"
proof -
  have "getAsInteger ''abc'' = None" and "getAsInteger ''0x'' = None"
    by code_simp+
  then show ?thesis
    using non_integer_argument [of "''string''" "''string_id''" "''abc''" sample_env OutFile sample_state]
      non_integer_argument [of "''dis''" "''func_id''" "''0x''" sample_env OutFile sample_state]
    by (simp add: numericCommands_def)
qed

text \<open>
  C6. For \<open>disassemble\<close> (or \<open>dis\<close>) with an argument that parses to the function id
  \<open>f\<close>, with or without the flag \<open>-offsets\<close>: if \<open>f\<close> is not below the function count, the
  only effect is the line "Error: no function with id: f exists." on the session's
  stream, no disassembly is rendered, and the result is do-not-terminate; if \<open>f\<close> is below
  the function count, the single-function disassembly of \<open>f\<close> is invoked, under the mask in
  force (or-ed with the virtual-offset flag when \<open>-offsets\<close> was given).
\<close>

theorem disassemble_function_id:
  assumes "cmd = ''disassemble'' \<or> cmd = ''dis''"
    and "CHR '' '' \<notin> set tok"
    and "getAsInteger tok = Some f"
  shows "(f \<ge> getFunctionCount e \<longrightarrow>
            executeCommand e os (cmd @ '' '' @ tok) s =
              (False, emit os (''Error: no function with id: '' @ decimal (unat f)
                                 @ '' exists.\<newline>'') s)
          \<and> executeCommand e os (cmd @ '' '' @ ''-offsets'' @ '' '' @ tok) s =
              (False, emit os (''Error: no function with id: '' @ decimal (unat f)
                                 @ '' exists.\<newline>'') s))
       \<and> (f < getFunctionCount e \<longrightarrow>
            executeCommand e os (cmd @ '' '' @ tok) s =
              (False, emit os ''\<newline>'' (engine e os (DisassembleFunction (options s) f) s))
          \<and> executeCommand e os (cmd @ '' '' @ ''-offsets'' @ '' '' @ tok) s =
              (False, emit os ''\<newline>''
                 (engine e os
                    (DisassembleFunction (options s OR opt_IncludeVirtualOffsets e) f) s)))"
proof -
  have cmd: "CHR '' '' \<notin> set cmd"
    using assms(1) by auto
  have flag: "CHR '' '' \<notin> set ''-offsets''"
    by simp
  have tok: "tok \<noteq> ''-offsets''"
    using assms(3) getAsInteger_offsets_flag by auto
  have plain: "split (cmd @ '' '' @ tok) (CHR '' '') = [cmd, tok]"
    using cmd assms(2) by (rule split_two)
  have flagged: "split (cmd @ '' '' @ ''-offsets'' @ '' '' @ tok) (CHR '' '')
      = [cmd, ''-offsets'', tok]"
    using cmd flag assms(2) by (rule split_three)
  show ?thesis
    unfolding executeCommand_def plain flagged
    using assms(3)
    by (simp add: exec_disassemble_arg [OF assms(1) tok]
        exec_disassemble_offsets_arg [OF assms(1) tok] not_le)
qed

text \<open>
  On the sample session, whose module has three functions: \<open>disassemble 999\<close> and
  \<open>dis -offsets 0x2\<close>.
\<close>

theorem disassemble_function_id_witness:
  "executeCommand sample_env OutFile ''disassemble 999'' sample_state =
     (False, emit OutFile ''Error: no function with id: 999 exists.\<newline>'' sample_state)
   \<and> executeCommand sample_env OutFile ''dis -offsets 0x2'' sample_state =
     (False, emit OutFile ''\<newline>''
        (engine sample_env OutFile (DisassembleFunction 29 2) sample_state))"
proof -
  have "getAsInteger ''999'' = Some 999" and "getAsInteger ''0x2'' = Some 2"
    by code_simp+
  moreover have "decimal (unat (999 :: 32 word)) = ''999''"
    by code_simp
  moreover have "getFunctionCount sample_env = 3" and "opt_IncludeVirtualOffsets sample_env = 8"
    and "options sample_state = 21"
    by (simp_all add: sample_env_def sample_state_def)
  ultimately show ?thesis
    using disassemble_function_id [of "''disassemble''" "''999''" 999 sample_env OutFile sample_state]
      disassemble_function_id [of "''dis''" "''0x2''" 2 sample_env OutFile sample_state]
    by simp
qed

text \<open>
  C7. For \<open>at-virtual\<close> (or \<open>at_virtual\<close>) with an argument that parses to the offset \<open>v\<close>:
  if \<open>v\<close> resolves to no function, the line "Virtual offset v is invalid." is written to
  the session's stream and no rendering operation is invoked, the metadata renderer
  included; if \<open>v\<close> resolves to the function id \<open>funcId\<close>, the structured metadata of
  \<open>funcId\<close> is rendered.
\<close>

theorem at_virtual_offset:
  assumes "cmd = ''at-virtual'' \<or> cmd = ''at_virtual''"
    and "CHR '' '' \<notin> set tok"
    and "getAsInteger tok = Some v"
  shows "(getFunctionFromVirtualOffset e v = None \<longrightarrow>
            executeCommand e os (cmd @ '' '' @ tok) s =
              (False, emit os (''Virtual offset '' @ decimal (unat v) @ '' is invalid.\<newline>''
                                 @ ''\<newline>'') s)
          \<and> calls (snd (executeCommand e os (cmd @ '' '' @ tok) s)) = calls s)
       \<and> (\<forall>funcId. getFunctionFromVirtualOffset e v = Some funcId \<longrightarrow>
            executeCommand e os (cmd @ '' '' @ tok) s =
              (False, emit os ''\<newline>'' (engine e os (DumpFunctionInfo funcId) s)))"
proof -
  have "CHR '' '' \<notin> set cmd"
    using assms(1) by auto
  then have tokens: "split (cmd @ '' '' @ tok) (CHR '' '') = [cmd, tok]"
    using assms(2) by (rule split_two)
  have swap: "cmd = ''at_virtual'' \<or> cmd = ''at-virtual''"
    using assms(1) by blast
  show ?thesis
    unfolding executeCommand_def tokens
    using assms(3) by (simp add: exec_at_virtual_arg [OF swap])
qed

text \<open>
  On the sample session, whose functions start at offset 100: \<open>at-virtual 0\<close> and
  \<open>at_virtual 100\<close>.
\<close>

theorem at_virtual_offset_witness:
  "executeCommand sample_env OutFile ''at-virtual 0'' sample_state =
     (False, emit OutFile ''Virtual offset 0 is invalid.\<newline>\<newline>'' sample_state)
   \<and> calls (snd (executeCommand sample_env OutFile ''at-virtual 0'' sample_state)) = []
   \<and> executeCommand sample_env OutFile ''at_virtual 100'' sample_state =
     (False, emit OutFile ''\<newline>'' (engine sample_env OutFile (DumpFunctionInfo 0) sample_state))"
proof -
  have "getAsInteger ''0'' = Some 0" and "getAsInteger ''100'' = Some 100"
    by code_simp+
  moreover have "decimal (unat (0 :: 32 word)) = ''0''"
    by code_simp
  moreover have "getFunctionFromVirtualOffset sample_env 0 = None"
    and "getFunctionFromVirtualOffset sample_env 100 = Some 0"
    and "calls sample_state = []"
    by (simp_all add: sample_env_def sample_state_def)
  ultimately show ?thesis
    using at_virtual_offset [of "''at-virtual''" "''0''" 0 sample_env OutFile sample_state]
      at_virtual_offset [of "''at_virtual''" "''100''" 100 sample_env OutFile sample_state]
    by simp
qed

text \<open>
  C8 says that every successfully dispatched command is followed by one blank line on
  the output stream and that no error diagnostic is. \<open>help\<close> is dispatched successfully
  and nothing follows its text (with the session on the output file, the file stays
  empty); the invalid-offset diagnostic of \<open>at-virtual\<close> is followed by the blank line.
\<close>

theorem trailing_newline_counterexample:
  "fst (executeCommand sample_env OutFile ''help'' sample_state) = False
   \<and> streams (snd (executeCommand sample_env OutFile ''help'' sample_state)) OutFile = []
   \<and> streams (snd (executeCommand sample_env Stdout ''help epilogue'' sample_state)) Stdout
       = ''Dump the epilogue.\<newline>\<newline>USAGE: epilogue\<newline>''
   \<and> streams (snd (executeCommand sample_env OutFile ''at-virtual 0'' sample_state)) OutFile
       = ''Virtual offset 0 is invalid.\<newline>\<newline>''"
  by code_simp

text \<open>
  C8, as the code has it. After the command's own output, one newline is appended to
  the session's stream exactly when the command invoked a rendering operation of the
  engines or wrote the invalid-offset diagnostic of \<open>at-virtual\<close>; in every other case
  (\<open>help\<close>, \<open>quit\<close>, the usage or invalid-command text, the cannot-parse and the
  out-of-range diagnostics) nothing is appended. Startup commands and interactive lines
  go through the same \<open>executeCommand\<close>.
\<close>

theorem trailing_newline:
  "(let toks = split line (CHR '' '');
        own = snd (dispatch e os toks s)
    in snd (executeCommand e os line s) =
         (if calls own \<noteq> calls s \<or> localError e toks = Some InvalidVirtualOffset
          then emit os ''\<newline>'' own
          else own)
       \<and> (hd toks = ''help'' \<or> hd toks = ''h'' \<or> hd toks = ''quit'' \<longrightarrow>
            snd (executeCommand e os line s) = own))"
proof -
  let ?toks = "split line (CHR '' '')"
  obtain x own where d: "dispatch e os ?toks s = (x, own)"
    by (cases "dispatch e os ?toks s")
  with dispatch_fallthrough [OF split_not_empty [of line "CHR '' ''"], of e os s]
  have "(x = FallThrough) =
      (calls own \<noteq> calls s \<or> localError e ?toks = Some InvalidVirtualOffset)"
    by simp
  with d have "snd (executeCommand e os line s) =
      (if calls own \<noteq> calls s \<or> localError e ?toks = Some InvalidVirtualOffset
       then emit os ''\<newline>'' own else own)"
    by (cases x) (simp_all add: executeCommand_def executeTokens_def split_not_empty)
  moreover have "snd (executeCommand e os line s) = own"
    if "hd ?toks = ''help'' \<or> hd ?toks = ''h'' \<or> hd ?toks = ''quit''"
    using exec_help_quit [OF split_not_empty that, of e os s] d
    by (simp add: executeCommand_def)
  ultimately show ?thesis
    using d by (simp add: Let_def)
qed

text \<open>On the sample session: \<open>summary\<close> gets the newline, \<open>quit\<close> does not.\<close>

theorem trailing_newline_witness:
  "snd (executeCommand sample_env OutFile ''summary'' sample_state) =
     emit OutFile ''\<newline>'' (engine sample_env OutFile DumpSummary sample_state)
   \<and> snd (executeCommand sample_env OutFile ''quit'' sample_state) = sample_state"
proof -
  have "split ''summary'' (CHR '' '') = [''summary'']"
    and "split ''quit'' (CHR '' '') = [''quit'']"
    by code_simp+
  moreover have "dispatch sample_env OutFile [''summary''] sample_state =
      (FallThrough, engine sample_env OutFile DumpSummary sample_state)"
    and "dispatch sample_env OutFile [''quit''] sample_state = (Return True, sample_state)"
    by (simp_all add: dispatch_def Let_def)
  moreover have "localError sample_env [''summary''] = None"
    and "localError sample_env [''quit''] = None"
    by code_simp+
  ultimately show ?thesis
    using trailing_newline [of "''summary''" sample_env OutFile sample_state]
      trailing_newline [of "''quit''" sample_env OutFile sample_state]
    by (simp add: Let_def)
qed

text \<open>
  C9 says that once \<open>-used\<close> is stripped the remaining tokens are checked against the
  arity of \<open>function\<close>. For \<open>function -used 1 2\<close> three tokens remain, a count for which
  the claim has the usage text; the code lists the used function ids and writes no usage
  text.
\<close>

theorem function_used_flag_counterexample:
  "remove1 ''-used'' (split ''function -used 1 2'' (CHR '' '')) = [''function'', ''1'', ''2'']
   \<and> calls (snd (executeCommand sample_env OutFile ''function -used 1 2'' sample_state))
       = [DumpUsedFunctionIDs]
   \<and> streams (snd (executeCommand sample_env OutFile ''function -used 1 2'' sample_state)) Stdout
       = []
   \<and> streams (snd (executeCommand sample_env OutFile ''function -used 1 2'' sample_state)) OutFile
       = ''used-ids\<newline>\<newline>''"
  by code_simp

text \<open>
  C9, as the code has it. For \<open>function\<close> (or \<open>fun\<close>): \<open>findAndRemoveOne\<close> removes the first
  occurrence of \<open>-used\<close>, wherever it stands. If the flag was found, the used function
  ids are listed, whatever the other tokens are and however many; the token count is
  checked only when the flag is absent: one token gives the function statistics, two
  give the lookup of one function id, any other count gives \<open>printHelp\<close>.
\<close>

theorem function_used_flag:
  assumes "hd (split line (CHR '' '')) = ''function'' \<or> hd (split line (CHR '' '')) = ''fun''"
  shows "findAndRemoveOne (split line (CHR '' '')) ''-used'' =
       (''-used'' \<in> set (split line (CHR '' '')), remove1 ''-used'' (split line (CHR '' '')))
   \<and> executeCommand e os line s =
     (let toks = split line (CHR '' '') in
      if ''-used'' \<in> set toks then (False, emit os ''\<newline>'' (engine e os DumpUsedFunctionIDs s))
      else if length toks = 1 then (False, emit os ''\<newline>'' (engine e os DumpFunctionStats s))
      else if length toks = 2 then
        (case getAsInteger (toks ! 1) of
           None \<Rightarrow> (False, emit os ''Error: cannot parse func_id as integer.\<newline>'' s)
         | Some funcId \<Rightarrow>
             (False, emit os ''\<newline>'' (engine e os (DumpFunctionBasicBlockStat funcId) s)))
      else (False, printHelp e (Some (hd toks)) s))"
proof -
  have "executeTokens e os (split line (CHR '' '')) s =
     (let toks = split line (CHR '' '') in
      if ''-used'' \<in> set toks then (False, emit os ''\<newline>'' (engine e os DumpUsedFunctionIDs s))
      else if length toks = 1 then (False, emit os ''\<newline>'' (engine e os DumpFunctionStats s))
      else if length toks = 2 then
        (case getAsInteger (toks ! 1) of
           None \<Rightarrow> (False, emit os ''Error: cannot parse func_id as integer.\<newline>'' s)
         | Some funcId \<Rightarrow>
             (False, emit os ''\<newline>'' (engine e os (DumpFunctionBasicBlockStat funcId) s)))
      else (False, printHelp e (Some (hd toks)) s))"
    unfolding Let_def using assms by (intro exec_function split_not_empty)
  then show ?thesis
    by (simp add: executeCommand_def findAndRemoveOne_def remove1_idem)
qed

text \<open>On the sample session: \<open>fun 7 -used\<close> and \<open>function 0x10\<close>.\<close>

theorem function_used_flag_witness:
  "executeCommand sample_env OutFile ''fun 7 -used'' sample_state =
     (False, emit OutFile ''\<newline>'' (engine sample_env OutFile DumpUsedFunctionIDs sample_state))
   \<and> executeCommand sample_env OutFile ''function 0x10'' sample_state =
     (False, emit OutFile ''\<newline>''
        (engine sample_env OutFile (DumpFunctionBasicBlockStat 16) sample_state))"
proof -
  have "split ''fun 7 -used'' (CHR '' '') = [''fun'', ''7'', ''-used'']"
    and "split ''function 0x10'' (CHR '' '') = [''function'', ''0x10'']"
    and "getAsInteger ''0x10'' = Some 16"
    by code_simp+
  then show ?thesis
    using function_used_flag [of "''fun 7 -used''" sample_env OutFile sample_state]
      function_used_flag [of "''function 0x10''" sample_env OutFile sample_state]
    by simp
qed

text \<open>
  C10. A line whose first token is \<open>quit\<close> makes \<open>executeCommand\<close> return the terminate
  signal and leaves the state as it was, whatever tokens follow: nothing is written, no
  rendering operation is invoked. Every other line returns do-not-terminate.
\<close>

theorem quit_terminates:
  "(hd (split line (CHR '' '')) = ''quit'' \<longrightarrow> executeCommand e os line s = (True, s))
   \<and> (hd (split line (CHR '' '')) \<noteq> ''quit'' \<longrightarrow> fst (executeCommand e os line s) = False)"
  by (simp add: executeCommand_def executeTokens_quit executeTokens_not_quit split_not_empty)

text \<open>On the sample session: \<open>quit now please\<close> and \<open>summary\<close>.\<close>

theorem quit_terminates_witness:
  "executeCommand sample_env OutFile ''quit now please'' sample_state = (True, sample_state)
   \<and> fst (executeCommand sample_env OutFile ''summary'' sample_state) = False"
proof -
  have "hd (split ''quit now please'' (CHR '' '')) = ''quit''"
    by code_simp
  moreover have "hd (split ''summary'' (CHR '' '')) \<noteq> ''quit''"
    by code_simp
  ultimately show ?thesis
    using quit_terminates [of "''quit now please''" sample_env OutFile sample_state]
      quit_terminates [of "''summary''" sample_env OutFile sample_state]
    by simp
qed

end
